theory Spec2Isabelle
  imports Main "HOL-Library.Word"
begin

section \<open>Values shared by the two packages\<close>

text \<open>
  A Go \<open>[]byte\<close> key is a list of bytes. A Go \<open>[]byte\<close> value may be the nil slice, which
  the code tests with \<open>== nil\<close>: values are \<open>bytes option\<close>, \<open>None\<close> being nil.
  A transaction identity is a Go \<open>interface{}\<close>: the root database uses the pointer to
  itself (\<open>db.tid = db\<close>), callers of \<open>Prepare\<close> pass any comparable value, and the nil
  interface is \<open>None\<close> of \<open>tid option\<close>.
\<close>

type_synonym bytes = "8 word list"

datatype tid = DBPtr nat | TidVal nat

datatype error =
    ErrUnsupportedNestedTransaction
  | ErrTransactionNotStarted
  | ErrDisallowedCallingInNoPreparedDB
  | ErrTidIsNil
  | ErrUnsupportedBeginInPreparedDB
  | ErrUnsupportedCommitInPreparedDB
  | ErrUnsupportedRollBackInPreparedDB
  | ErrPreparedDBIsDirty
  | ErrTidIsExist
  | ErrKeyNotFound
  | ErrConflictWithSibling tid
  | ErrInvalidTable
  | BackendError nat

section \<open>The storage interface\<close>

text \<open>
  \<open>storage.Storage\<close> is an interface (\<open>Get\<close>, \<open>Put\<close>, \<open>Del\<close>); the database is written
  against the interface, so the model takes the three operations as a parameter over an
  opaque backend state \<open>'s\<close>. \<open>Get\<close> only reads.
\<close>

record 's storage =
  storage_Get :: "bytes \<Rightarrow> 's \<Rightarrow> error + bytes option"
  storage_Put :: "bytes \<Rightarrow> bytes option \<Rightarrow> 's \<Rightarrow> error option \<times> 's"
  storage_Del :: "bytes \<Rightarrow> 's \<Rightarrow> error option \<times> 's"

section \<open>Staging tables\<close>

text \<open>
  Modelled from the spec: the versionized value and the staging table
  (\<open>VersionizedValue\<close>, \<open>StagingTable\<close> of package mvccdbv2 are not among the source
  files; only their uses in mvccdb.go are). The fields \<open>key\<close>, \<open>val\<close>, \<open>deleted\<close> and
  \<open>dirty\<close> are the ones mvccdb.go reads; \<open>is_default\<close> is what \<open>isDefault()\<close> returns.
\<close>

record versionized_value =
  key :: bytes
  val :: "bytes option"
  owner_tid :: tid
  deleted :: bool
  dirty :: bool
  is_default :: bool
  version :: nat
  old_val :: "bytes option"

text \<open>
  Modelled from the spec: a staging table owns its records in insertion order, at most
  one per key. A table is referred to by a handle: the list of owner TIDs from the table
  itself up to the root table. The parent reference of the table at \<open>t # p\<close> is \<open>p\<close>
  (absent when \<open>p = []\<close>), its ancestor chain is the handle, and its children mapping
  sends \<open>c\<close> to the table at \<open>c # t # p\<close>.
\<close>

record staging_table =
  table_tid :: tid
  entries :: "versionized_value list"

type_synonym handle = "tid list"

text \<open>
  The state outside a database object: the backend behind the storage interface and
  the staging tables, which parent and child databases share by reference.
\<close>

record 's world =
  backend :: 's
  tables :: "handle \<Rightarrow> staging_table option"

text \<open>
  The methods of \<open>*StagingTable\<close> that mvccdb.go calls. Their bodies are not among the
  source files, so the methods of \<open>MVCCDB\<close> below take them as a parameter; the model of
  them that follows the specification comes after the database. \<open>Lock\<close> and \<open>Unlock\<close>
  have no effect on a single thread.
\<close>

record 's table_ops =
  NewStagingTable :: "tid \<Rightarrow> 's world \<Rightarrow> handle \<times> 's world"
  table_Get :: "handle \<Rightarrow> bytes \<Rightarrow> 's world \<Rightarrow> (error + versionized_value) \<times> 's world"
  table_Put :: "handle \<Rightarrow> bytes \<Rightarrow> bytes option \<Rightarrow> 's world
                  \<Rightarrow> (error + versionized_value) \<times> 's world"
  table_Del :: "handle \<Rightarrow> bytes \<Rightarrow> 's world \<Rightarrow> (error + versionized_value) \<times> 's world"
  table_Prepare :: "handle \<Rightarrow> tid \<Rightarrow> 's world \<Rightarrow> (error + handle) \<times> 's world"
  table_MergeToParent :: "handle \<Rightarrow> 's world \<Rightarrow> (error + tid list) \<times> 's world"
  table_Purge :: "handle \<Rightarrow> 's world \<Rightarrow> 's world"
  table_GetVersionizedValues :: "handle \<Rightarrow> 's world \<Rightarrow> versionized_value list"

section \<open>MVCCDB (common/mvccdbv2/mvccdb.go)\<close>

text \<open>
  The struct \<open>MVCCDB\<close>. \<open>storage\<close> is the shared backend of the world, \<open>stagingTable\<close> a
  handle into it; \<open>preparedDBs\<close> is the registry map, a list of distinct keys (a Go map
  has no order; the loops over it below do the same work in any order). The mutex is
  left out: every method runs alone. \<open>parentDB\<close> is a back reference, read by
  \<open>GetParentDB\<close> only, and the ownership tree is what the datatype keeps.
\<close>

datatype mvccdb = MVCCDB
  (tid: tid)
  (stagingTable: handle)
  (isInTransaction: bool)
  (isPreparedDB: bool)
  (isDirtyDB: bool)
  (preparedDBs: "(tid \<times> mvccdb) list")

text \<open>\<open>IsPreparedDBDirty\<close>: the loop over \<open>db.preparedDBs\<close> with its early return.\<close>

fun IsPreparedDBDirty :: "mvccdb \<Rightarrow> bool"
  and IsPreparedDBDirty_loop :: "(tid \<times> mvccdb) list \<Rightarrow> bool" where
  "IsPreparedDBDirty (MVCCDB t h i p d cs) = IsPreparedDBDirty_loop cs"
| "IsPreparedDBDirty_loop [] = False"
| "IsPreparedDBDirty_loop ((t, pdb) # rest) =
     (if IsPreparedDBDirty pdb then True else IsPreparedDBDirty_loop rest)"

text \<open>The descendants of a database: its registered children, theirs, and so on.\<close>

fun descendants :: "mvccdb \<Rightarrow> mvccdb list"
  and descendants_list :: "(tid \<times> mvccdb) list \<Rightarrow> mvccdb list" where
  "descendants (MVCCDB t h i p d cs) = descendants_list cs"
| "descendants_list [] = []"
| "descendants_list ((t, pdb) # rest) = pdb # descendants pdb @ descendants_list rest"

text \<open>Assignments to the fields of a database object.\<close>

fun set_isInTransaction :: "bool \<Rightarrow> mvccdb \<Rightarrow> mvccdb" where
  "set_isInTransaction b (MVCCDB t h i p d cs) = MVCCDB t h b p d cs"

fun set_isDirtyDB :: "bool \<Rightarrow> mvccdb \<Rightarrow> mvccdb" where
  "set_isDirtyDB b (MVCCDB t h i p d cs) = MVCCDB t h i p b cs"

fun set_preparedDBs :: "(tid \<times> mvccdb) list \<Rightarrow> mvccdb \<Rightarrow> mvccdb" where
  "set_preparedDBs cs' (MVCCDB t h i p d cs) = MVCCDB t h i p d cs'"

text \<open>\<open>Begin\<close>: the error (nil is \<open>None\<close>) and the database afterwards.\<close>

definition Begin :: "mvccdb \<Rightarrow> error option \<times> mvccdb" where
  "Begin db =
     (if isInTransaction db then (Some ErrUnsupportedNestedTransaction, db)
      else if isPreparedDB db then (Some ErrUnsupportedBeginInPreparedDB, db)
      else (None, set_isInTransaction True db))"

text \<open>
  \<open>NewMVCCDB\<close>, for the object allocated at address \<open>a\<close>: its tid is the pointer to itself.
\<close>

definition NewMVCCDB :: "'s table_ops \<Rightarrow> nat \<Rightarrow> 's world \<Rightarrow> mvccdb \<times> 's world" where
  "NewMVCCDB T a w =
     (case NewStagingTable T (DBPtr a) w of
        (h, w') \<Rightarrow> (MVCCDB (DBPtr a) h False False False [], w'))"

text \<open>\<open>getFromStorage\<close>, \<open>putToStorage\<close>, \<open>delFromStorage\<close>: the calls of the backend.\<close>

definition getFromStorage :: "'s storage \<Rightarrow> bytes \<Rightarrow> 's world \<Rightarrow> error + bytes option" where
  "getFromStorage S k w = storage_Get S k (backend w)"

definition putToStorage ::
  "'s storage \<Rightarrow> bytes \<Rightarrow> bytes option \<Rightarrow> 's world \<Rightarrow> error option \<times> 's world" where
  "putToStorage S k v w =
     (case storage_Put S k v (backend w) of (e, s') \<Rightarrow> (e, w\<lparr>backend := s'\<rparr>))"

definition delFromStorage :: "'s storage \<Rightarrow> bytes \<Rightarrow> 's world \<Rightarrow> error option \<times> 's world" where
  "delFromStorage S k w =
     (case storage_Del S k (backend w) of (e, s') \<Rightarrow> (e, w\<lparr>backend := s'\<rparr>))"

text \<open>
  The loop of \<open>Commit\<close> over \<open>GetVersionizedValues()\<close>: the two \<open>continue\<close>s, then the
  delete or the put, whose returned error the code drops.
\<close>

fun Commit_loop :: "'s storage \<Rightarrow> versionized_value list \<Rightarrow> 's world \<Rightarrow> 's world" where
  "Commit_loop S [] w = w"
| "Commit_loop S (value # rest) w =
     (if is_default value then Commit_loop S rest w
      else if \<not> dirty value then Commit_loop S rest w
      else if deleted value then Commit_loop S rest (snd (delFromStorage S (key value) w))
      else Commit_loop S rest (snd (putToStorage S (key value) (val value) w)))"

definition Commit ::
  "'s storage \<Rightarrow> 's table_ops \<Rightarrow> mvccdb \<Rightarrow> 's world \<Rightarrow> error option \<times> mvccdb \<times> 's world" where
  "Commit S T db w =
     (if \<not> isInTransaction db then (Some ErrTransactionNotStarted, db, w)
      else if isPreparedDB db then (Some ErrUnsupportedCommitInPreparedDB, db, w)
      else if IsPreparedDBDirty db then (Some ErrPreparedDBIsDirty, db, w)
      else (None, set_isDirtyDB False (set_isInTransaction False db),
            Commit_loop S (table_GetVersionizedValues T (stagingTable db) w) w))"

text \<open>
  \<open>Reset\<close>, with its loop over the registered children; the error a child's \<open>Reset\<close>
  returns is dropped by both callers.
\<close>

fun Reset :: "'s table_ops \<Rightarrow> mvccdb \<Rightarrow> 's world \<Rightarrow> error option \<times> mvccdb \<times> 's world"
  and Reset_loop ::
    "'s table_ops \<Rightarrow> (tid \<times> mvccdb) list \<Rightarrow> 's world \<Rightarrow> (tid \<times> mvccdb) list \<times> 's world" where
  "Reset T (MVCCDB t h i p d cs) w =
     (if \<not> i then (Some ErrTransactionNotStarted, MVCCDB t h i p d cs, w)
      else if \<not> p then (Some ErrDisallowedCallingInNoPreparedDB, MVCCDB t h i p d cs, w)
      else (case Reset_loop T cs w of
              (cs', w') \<Rightarrow> (None, MVCCDB t h i p False cs', table_Purge T h w')))"
| "Reset_loop T [] w = ([], w)"
| "Reset_loop T ((c, pdb) # rest) w =
     (case Reset T pdb w of
        (e, pdb', w') \<Rightarrow>
          (case Reset_loop T rest w' of (rest', w'') \<Rightarrow> ((c, pdb') # rest', w'')))"

definition RollBack ::
  "'s table_ops \<Rightarrow> mvccdb \<Rightarrow> 's world \<Rightarrow> error option \<times> mvccdb \<times> 's world" where
  "RollBack T db w =
     (if \<not> isInTransaction db then (Some ErrTransactionNotStarted, db, w)
      else if isPreparedDB db then (Some ErrUnsupportedRollBackInPreparedDB, db, w)
      else (case Reset_loop T (preparedDBs db) w of
              (cs', w') \<Rightarrow>
                (None,
                 set_isDirtyDB False (set_isInTransaction False (set_preparedDBs cs' db)),
                 table_Purge T (stagingTable db) w')))"

text \<open>\<open>Get\<close>, \<open>Put\<close>, \<open>Del\<close> of the database.\<close>

definition MVCCDB_Get ::
  "'s storage \<Rightarrow> 's table_ops \<Rightarrow> mvccdb \<Rightarrow> bytes \<Rightarrow> 's world
     \<Rightarrow> (error + bytes option) \<times> 's world" where
  "MVCCDB_Get S T db k w =
     (if \<not> isInTransaction db then (getFromStorage S k w, w)
      else (case table_Get T (stagingTable db) k w of
              (Inl err, w') \<Rightarrow> (Inl err, w')
            | (Inr value, w') \<Rightarrow>
                if deleted value \<or> val value = None then (Inl ErrKeyNotFound, w')
                else (Inr (val value), w')))"

definition MVCCDB_Put ::
  "'s storage \<Rightarrow> 's table_ops \<Rightarrow> mvccdb \<Rightarrow> bytes \<Rightarrow> bytes option \<Rightarrow> 's world
     \<Rightarrow> error option \<times> mvccdb \<times> 's world" where
  "MVCCDB_Put S T db k v w =
     (if \<not> isInTransaction db then
        (case putToStorage S k v w of (e, w') \<Rightarrow> (e, db, w'))
      else (case table_Put T (stagingTable db) k v w of
              (Inl err, w') \<Rightarrow> (Some err, db, w')
            | (Inr value, w') \<Rightarrow> (None, set_isDirtyDB True db, w')))"

definition MVCCDB_Del ::
  "'s storage \<Rightarrow> 's table_ops \<Rightarrow> mvccdb \<Rightarrow> bytes \<Rightarrow> 's world
     \<Rightarrow> error option \<times> mvccdb \<times> 's world" where
  "MVCCDB_Del S T db k w =
     (if \<not> isInTransaction db then
        (case delFromStorage S k w of (e, w') \<Rightarrow> (e, db, w'))
      else (case table_Del T (stagingTable db) k w of
              (Inl err, w') \<Rightarrow> (Some err, db, w')
            | (Inr value, w') \<Rightarrow> (None, set_isDirtyDB True db, w')))"

text \<open>
  \<open>Prepare\<close>: the new child is returned and registered; the registry entry and the
  returned pointer are the same object.
\<close>

definition Prepare ::
  "'s table_ops \<Rightarrow> mvccdb \<Rightarrow> tid option \<Rightarrow> 's world
     \<Rightarrow> (error + mvccdb) \<times> mvccdb \<times> 's world" where
  "Prepare T db tid_arg w =
     (if \<not> isInTransaction db then (Inl ErrTransactionNotStarted, db, w)
      else (case tid_arg of
              None \<Rightarrow> (Inl ErrTidIsNil, db, w)
            | Some t \<Rightarrow>
                if map_of (preparedDBs db) t \<noteq> None then (Inl ErrTidIsExist, db, w)
                else (case table_Prepare T (stagingTable db) t w of
                        (Inl err, w') \<Rightarrow> (Inl err, db, w')
                      | (Inr preparedStagingTable, w') \<Rightarrow>
                          (let preparedDB = MVCCDB t preparedStagingTable True True False []
                           in (Inr preparedDB,
                               set_preparedDBs (preparedDBs db @ [(t, preparedDB)]) db,
                               w')))))"

definition CheckAndUpdate ::
  "'s table_ops \<Rightarrow> mvccdb \<Rightarrow> 's world \<Rightarrow> (error + tid list) \<times> mvccdb \<times> 's world" where
  "CheckAndUpdate T db w =
     (if \<not> isInTransaction db then (Inl ErrTransactionNotStarted, db, w)
      else if \<not> isPreparedDB db then (Inl ErrDisallowedCallingInNoPreparedDB, db, w)
      else (case table_MergeToParent T (stagingTable db) w of
              (Inl err, w') \<Rightarrow> (Inl err, db, w')
            | (Inr ret, w') \<Rightarrow> (Inr ret, set_isDirtyDB False db, w')))"

section \<open>The staging table of the specification\<close>

text \<open>
  Modelled from the spec: the operations of the staging table (section 4.2); the file
  of package mvccdbv2 that defines \<open>StagingTable\<close> is not among the source files.
  \<open>ErrInvalidTable\<close> answers a handle that refers to no table, or a merge asked of a
  table without parent; neither arises from handles made by \<open>NewStagingTable\<close> and
  \<open>Prepare\<close> under the guards of the database.
\<close>

text \<open>
  Modelled from the spec: the mapping from key to record of a table, \<open>find_entry\<close> to
  read it and \<open>set_entries\<close> to replace the records of the table at a handle.
\<close>

definition find_entry :: "bytes \<Rightarrow> versionized_value list \<Rightarrow> versionized_value option" where
  "find_entry k es = find (\<lambda>v. key v = k) es"

definition set_entries :: "handle \<Rightarrow> versionized_value list \<Rightarrow> 's world \<Rightarrow> 's world" where
  "set_entries h es w =
     (case tables w h of
        None \<Rightarrow> w
      | Some tbl \<Rightarrow> w\<lparr>tables := (tables w)(h \<mapsto> tbl\<lparr>entries := es\<rparr>)\<rparr>)"

text \<open>
  Modelled from the spec: \<open>get\<close>, steps 3 and 4. The record made on a read-through:
  \<open>default\<close>, neither dirty nor deleted, version 0, \<open>old_val\<close> the value found (absent
  when the key was not found).
\<close>

definition materialize :: "tid \<Rightarrow> bytes \<Rightarrow> bytes option \<Rightarrow> versionized_value" where
  "materialize owner k found =
     \<lparr>key = k, val = found, owner_tid = owner, deleted = False, dirty = False,
      is_default = True, version = 0, old_val = found\<rparr>"

text \<open>
  Modelled from the spec: \<open>get\<close>, the insertion of the record made on a read-through,
  owned by the table, after the records the table has.
\<close>

definition insert_default ::
  "handle \<Rightarrow> bytes \<Rightarrow> bytes option \<Rightarrow> 's world \<Rightarrow> (error + versionized_value) \<times> 's world" where
  "insert_default h k found w =
     (case tables w h of
        None \<Rightarrow> (Inl ErrInvalidTable, w)
      | Some tbl \<Rightarrow>
          (let v = materialize (table_tid tbl) k found
           in (Inr v, set_entries h (entries tbl @ [v]) w)))"

text \<open>
  Modelled from the spec: the root table of a new database, empty, owned by the TID of
  the database.
\<close>

definition StagingTable_New :: "tid \<Rightarrow> 's world \<Rightarrow> handle \<times> 's world" where
  "StagingTable_New t w =
     ([t], w\<lparr>tables := (tables w)([t] \<mapsto> \<lparr>table_tid = t, entries = []\<rparr>)\<rparr>)"

text \<open>
  Modelled from the spec: \<open>get\<close>. An own record is returned as it is; otherwise the key
  is looked up in the parent table when there is one, else in the backend; \<open>KeyNotFound\<close>
  becomes an absent default record and any other error is passed on.
\<close>

fun StagingTable_Get ::
  "'s storage \<Rightarrow> handle \<Rightarrow> bytes \<Rightarrow> 's world \<Rightarrow> (error + versionized_value) \<times> 's world" where
  "StagingTable_Get S [] k w = (Inl ErrInvalidTable, w)"
| "StagingTable_Get S (t # p) k w =
     (case tables w (t # p) of
        None \<Rightarrow> (Inl ErrInvalidTable, w)
      | Some tbl \<Rightarrow>
          (case find_entry k (entries tbl) of
             Some v \<Rightarrow> (Inr v, w)
           | None \<Rightarrow>
               (case (if p = [] then (getFromStorage S k w, w)
                      else (case StagingTable_Get S p k w of
                              (Inl e, w1) \<Rightarrow> (Inl e, w1)
                            | (Inr pv, w1) \<Rightarrow>
                                (if deleted pv \<or> val pv = None then Inl ErrKeyNotFound
                                 else Inr (val pv), w1))) of
                  (Inl e, w1) \<Rightarrow>
                    if e = ErrKeyNotFound then insert_default (t # p) k None w1
                    else (Inl e, w1)
                | (Inr found, w1) \<Rightarrow> insert_default (t # p) k found w1)))"

text \<open>
  Modelled from the spec: \<open>put\<close> and \<open>del\<close>. The record is fetched by \<open>get\<close>; a default
  record is upgraded (version 1, \<open>old_val\<close> the value at entry), any other is changed in
  place with its version incremented.
\<close>

definition write_record ::
  "bytes option \<Rightarrow> bool \<Rightarrow> versionized_value \<Rightarrow> versionized_value" where
  "write_record v del r =
     (if is_default r then
        r\<lparr>val := v, deleted := del, dirty := True, is_default := False, version := 1,
          old_val := val r\<rparr>
      else r\<lparr>val := v, deleted := del, dirty := True, version := version r + 1\<rparr>)"

text \<open>Modelled from the spec: \<open>put\<close> and \<open>del\<close>, the record written back under its key.\<close>

definition replace_entry :: "handle \<Rightarrow> versionized_value \<Rightarrow> 's world \<Rightarrow> 's world" where
  "replace_entry h r w =
     (case tables w h of
        None \<Rightarrow> w
      | Some tbl \<Rightarrow> set_entries h (map (\<lambda>e. if key e = key r then r else e) (entries tbl)) w)"

text \<open>Modelled from the spec: \<open>put\<close>.\<close>

definition StagingTable_Put ::
  "'s storage \<Rightarrow> handle \<Rightarrow> bytes \<Rightarrow> bytes option \<Rightarrow> 's world
     \<Rightarrow> (error + versionized_value) \<times> 's world" where
  "StagingTable_Put S h k v w =
     (case StagingTable_Get S h k w of
        (Inl e, w1) \<Rightarrow> (Inl e, w1)
      | (Inr r, w1) \<Rightarrow> (Inr (write_record v False r), replace_entry h (write_record v False r) w1))"

text \<open>Modelled from the spec: \<open>del\<close>, a tombstone with absent value.\<close>

definition StagingTable_Del ::
  "'s storage \<Rightarrow> handle \<Rightarrow> bytes \<Rightarrow> 's world \<Rightarrow> (error + versionized_value) \<times> 's world" where
  "StagingTable_Del S h k w =
     (case StagingTable_Get S h k w of
        (Inl e, w1) \<Rightarrow> (Inl e, w1)
      | (Inr r, w1) \<Rightarrow> (Inr (write_record None True r), replace_entry h (write_record None True r) w1))"

text \<open>Modelled from the spec: \<open>prepare\<close>, the new empty child table under \<open>t\<close>.\<close>

definition StagingTable_Prepare ::
  "handle \<Rightarrow> tid \<Rightarrow> 's world \<Rightarrow> (error + handle) \<times> 's world" where
  "StagingTable_Prepare h t w =
     (case tables w h of
        None \<Rightarrow> (Inl ErrInvalidTable, w)
      | Some tbl \<Rightarrow>
          (case tables w (t # h) of
             Some c \<Rightarrow> (Inl ErrTidIsExist, w)
           | None \<Rightarrow>
               (Inr (t # h), w\<lparr>tables := (tables w)(t # h \<mapsto> \<lparr>table_tid = t, entries = []\<rparr>)\<rparr>)))"

text \<open>
  Modelled from the spec: \<open>purge\<close> clears the entries of the table and of every table
  below it, and removes none of them. \<open>under h p\<close>: the table at \<open>p\<close> is the table at
  \<open>h\<close> or a descendant of it.
\<close>

definition under :: "handle \<Rightarrow> handle \<Rightarrow> bool" where
  "under h p = (length h \<le> length p \<and> drop (length p - length h) p = h)"

text \<open>Modelled from the spec: \<open>purge\<close>.\<close>

definition StagingTable_Purge :: "handle \<Rightarrow> 's world \<Rightarrow> 's world" where
  "StagingTable_Purge h w =
     w\<lparr>tables := (\<lambda>p. if under h p then map_option (\<lambda>tbl. tbl\<lparr>entries := []\<rparr>) (tables w p)
                         else tables w p)\<rparr>"

text \<open>
  Modelled from the spec: the records of a table, which \<open>Commit\<close> iterates (in an order
  the specification leaves open; here the order of insertion).
\<close>

definition StagingTable_GetVersionizedValues :: "handle \<Rightarrow> 's world \<Rightarrow> versionized_value list" where
  "StagingTable_GetVersionizedValues h w =
     (case tables w h of None \<Rightarrow> [] | Some tbl \<Rightarrow> entries tbl)"

text \<open>
  Modelled from the spec: \<open>merge_to_parent\<close>, rule (a). A record \<open>r\<close> of the child
  conflicts when the parent's record for its key is dirty, is owned by a TID outside the
  child's ancestor chain, and holds a value other than \<open>old_val\<close> of \<open>r\<close>; the owner is
  the sibling reported. Records are inspected in insertion order.
\<close>

definition conflict_of :: "handle \<Rightarrow> staging_table \<Rightarrow> versionized_value \<Rightarrow> tid option" where
  "conflict_of h parent r =
     (case find_entry (key r) (entries parent) of
        None \<Rightarrow> None
      | Some pv \<Rightarrow>
          if dirty pv \<and> owner_tid pv \<notin> set h \<and> val pv \<noteq> old_val r then Some (owner_tid pv)
          else None)"

text \<open>
  Modelled from the spec: \<open>merge_to_parent\<close>, the checks of rule (a) over the records
  of the child in insertion order, stopping at the first conflict.
\<close>

fun first_conflict :: "handle \<Rightarrow> staging_table \<Rightarrow> versionized_value list \<Rightarrow> tid option" where
  "first_conflict h parent [] = None"
| "first_conflict h parent (r # rs) =
     (case conflict_of h parent r of
        Some s \<Rightarrow> Some s
      | None \<Rightarrow> first_conflict h parent rs)"

text \<open>
  Modelled from the spec: \<open>merge_to_parent\<close>, rule (b). A written record is copied
  under the parent's ownership; pure reads are not copied.
\<close>

definition merge_record ::
  "tid \<Rightarrow> versionized_value option \<Rightarrow> versionized_value \<Rightarrow> versionized_value" where
  "merge_record ptid prior r =
     \<lparr>key = key r, val = val r, owner_tid = ptid, deleted = deleted r, dirty = True,
      is_default = False,
      version = (case prior of None \<Rightarrow> 0 | Some pv \<Rightarrow> version pv) + 1,
      old_val = (case prior of None \<Rightarrow> None | Some pv \<Rightarrow> val pv)\<rparr>"

text \<open>
  Modelled from the spec: \<open>merge_to_parent\<close>, rule (b): the copy takes the place of the
  parent's record for the key, or is added when there is none; \<open>merge_writes\<close> does so
  for every written record of the child.
\<close>

definition upsert :: "versionized_value \<Rightarrow> versionized_value list \<Rightarrow> versionized_value list" where
  "upsert v es =
     (if find_entry (key v) es = None then es @ [v]
      else map (\<lambda>e. if key e = key v then v else e) es)"

fun merge_writes :: "staging_table \<Rightarrow> versionized_value list \<Rightarrow> staging_table" where
  "merge_writes parent [] = parent"
| "merge_writes parent (r # rs) =
     (if dirty r \<and> \<not> is_default r then
        merge_writes
          (parent\<lparr>entries :=
             upsert (merge_record (table_tid parent) (find_entry (key r) (entries parent)) r)
               (entries parent)\<rparr>) rs
      else merge_writes parent rs)"

text \<open>
  Modelled from the spec: the TIDs returned by a merge, the owners outside the ancestor
  chain of the dirty parent records it overwrites, each once, in the order met.
\<close>

fun overwritten :: "handle \<Rightarrow> staging_table \<Rightarrow> versionized_value list \<Rightarrow> tid list" where
  "overwritten h parent [] = []"
| "overwritten h parent (r # rs) =
     (case (if dirty r \<and> \<not> is_default r then find_entry (key r) (entries parent) else None) of
        None \<Rightarrow> overwritten h parent rs
      | Some pv \<Rightarrow>
          if dirty pv \<and> owner_tid pv \<notin> set h
          then owner_tid pv # removeAll (owner_tid pv) (overwritten h parent rs)
          else overwritten h parent rs)"

text \<open>
  Modelled from the spec: \<open>merge_to_parent\<close>. Every check comes before the first write;
  after the writes the child is purged.
\<close>

definition StagingTable_MergeToParent ::
  "handle \<Rightarrow> 's world \<Rightarrow> (error + tid list) \<times> 's world" where
  "StagingTable_MergeToParent h w =
     (if length h < 2 then (Inl ErrInvalidTable, w)
      else (case tables w h of
              None \<Rightarrow> (Inl ErrInvalidTable, w)
            | Some child \<Rightarrow>
                (case tables w (tl h) of
                   None \<Rightarrow> (Inl ErrInvalidTable, w)
                 | Some parent \<Rightarrow>
                     (case first_conflict h parent (entries child) of
                        Some s \<Rightarrow> (Inl (ErrConflictWithSibling s), w)
                      | None \<Rightarrow>
                          (Inr (overwritten h parent (entries child)),
                           StagingTable_Purge h
                             (w\<lparr>tables :=
                                  (tables w)(tl h \<mapsto> merge_writes parent (entries child))\<rparr>))))))"

text \<open>Modelled from the spec: the staging table as the parameter of the database.\<close>

definition spec_tables :: "'s storage \<Rightarrow> 's table_ops" where
  "spec_tables S =
     \<lparr>NewStagingTable = StagingTable_New,
      table_Get = StagingTable_Get S,
      table_Put = StagingTable_Put S,
      table_Del = StagingTable_Del S,
      table_Prepare = StagingTable_Prepare,
      table_MergeToParent = StagingTable_MergeToParent,
      table_Purge = StagingTable_Purge,
      table_GetVersionizedValues = StagingTable_GetVersionizedValues\<rparr>"

section \<open>A backend in memory\<close>

text \<open>
  An implementation of the storage interface over an association list, on which the
  definitions are evaluated at concrete inputs: \<open>Get\<close> answers \<open>ErrKeyNotFound\<close> for a
  key without binding, \<open>Put\<close> and \<open>Del\<close> never fail.
\<close>

type_synonym mem = "(bytes \<times> bytes option) list"

definition mem_storage :: "mem storage" where
  "mem_storage =
     \<lparr>storage_Get = (\<lambda>k s. case map_of s k of None \<Rightarrow> Inl ErrKeyNotFound | Some v \<Rightarrow> Inr v),
      storage_Put = (\<lambda>k v s. (None, (k, v) # filter (\<lambda>b. fst b \<noteq> k) s)),
      storage_Del = (\<lambda>k s. (None, filter (\<lambda>b. fst b \<noteq> k) s))\<rparr>"

definition no_tables :: "mem \<Rightarrow> mem world" where
  "no_tables s = \<lparr>backend = s, tables = (\<lambda>h. None)\<rparr>"

section \<open>Inputs on which the definitions are evaluated\<close>

text \<open>
  A child returned by \<open>Prepare\<close> and the entry of the registry are one object in the
  code; \<open>store_child\<close> writes the child, after a call on it, back into the registry.
\<close>

definition store_child :: "tid \<Rightarrow> mvccdb \<Rightarrow> mvccdb \<Rightarrow> mvccdb" where
  "store_child t c db =
     set_preparedDBs (map (\<lambda>b. if fst b = t then (t, c) else b) (preparedDBs db)) db"

text \<open>
  \<open>db := NewMVCCDB(s); db.Begin(); c := db.Prepare(1); c.Put([1], [2])\<close> on an empty
  backend: the root, the child and the world afterwards. \<open>dirty_child_root\<close> is the
  root this run produces, a root in a transaction whose one prepared child is dirty.
\<close>

definition dirty_child_root :: mvccdb where
  "dirty_child_root =
     MVCCDB (DBPtr 0) [DBPtr 0] True False False
       [(TidVal 1, MVCCDB (TidVal 1) [TidVal 1, DBPtr 0] True True True [])]"

definition dirty_child_scenario :: "mvccdb \<times> mvccdb \<times> mem world" where
  "dirty_child_scenario =
     (let T = spec_tables mem_storage;
          (db0, w0) = NewMVCCDB T 0 (no_tables []);
          (e1, db1) = Begin db0;
          (r, db2, w2) = Prepare T db1 (Some (TidVal 1)) w0;
          (e3, c3, w3) = MVCCDB_Put mem_storage T (projr r) [1] (Some [2]) w2
      in (store_child (TidVal 1) c3 db2, c3, w3))"

text \<open>The child that \<open>Prepare(1)\<close> returns in this run, before the \<open>Put\<close>.\<close>

definition prepared_child :: mvccdb where
  "prepared_child = MVCCDB (TidVal 1) [TidVal 1, DBPtr 0] True True False []"

text \<open>What the loop of \<open>Commit\<close> does to the backend for one record that it flushes.\<close>

definition flush :: "'s storage \<Rightarrow> versionized_value \<Rightarrow> 's \<Rightarrow> 's" where
  "flush S v s =
     (if deleted v then snd (storage_Del S (key v) s) else snd (storage_Put S (key v) (val v) s))"

text \<open>A backend that only records the calls of \<open>Put\<close> and \<open>Del\<close> it receives.\<close>

datatype call = PutCall bytes "bytes option" | DelCall bytes

definition log_storage :: "call list storage" where
  "log_storage =
     \<lparr>storage_Get = (\<lambda>k s. Inl ErrKeyNotFound),
      storage_Put = (\<lambda>k v s. (None, s @ [PutCall k v])),
      storage_Del = (\<lambda>k s. (None, s @ [DelCall k]))\<rparr>"

text \<open>
  A root table with a default record, a dirty put, a dirty tombstone and a record that
  is neither default nor dirty, over the recording backend.
\<close>

definition commit_example :: "call list world" where
  "commit_example =
     \<lparr>backend = [],
      tables = (\<lambda>h. None)([DBPtr 0] \<mapsto>
        \<lparr>table_tid = DBPtr 0,
         entries =
           [\<lparr>key = [1], val = Some [7], owner_tid = DBPtr 0, deleted = False, dirty = False,
              is_default = True, version = 0, old_val = Some [7]\<rparr>,
            \<lparr>key = [2], val = Some [9], owner_tid = DBPtr 0, deleted = False, dirty = True,
              is_default = False, version = 1, old_val = None\<rparr>,
            \<lparr>key = [3], val = None, owner_tid = DBPtr 0, deleted = True, dirty = True,
              is_default = False, version = 2, old_val = Some [5]\<rparr>,
            \<lparr>key = [4], val = Some [6], owner_tid = DBPtr 0, deleted = False, dirty = False,
              is_default = False, version = 1, old_val = None\<rparr>]\<rparr>)\<rparr>"

text \<open>
  A parent table holding the dirty writes of two siblings (TIDs 1 and 3), and the table
  of the child with TID 2, which read key \<open>[1]\<close> and wrote key \<open>[2]\<close> when both held
  \<open>[0]\<close>: the state rule (a) of the merge is about. Both keys of the child conflict.
\<close>

definition merge_example_parent :: staging_table where
  "merge_example_parent =
     \<lparr>table_tid = DBPtr 0,
      entries =
        [\<lparr>key = [1], val = Some [5], owner_tid = TidVal 1, deleted = False, dirty = True,
           is_default = False, version = 1, old_val = Some [0]\<rparr>,
         \<lparr>key = [2], val = Some [6], owner_tid = TidVal 3, deleted = False, dirty = True,
           is_default = False, version = 1, old_val = Some [0]\<rparr>]\<rparr>"

definition merge_example_child :: staging_table where
  "merge_example_child =
     \<lparr>table_tid = TidVal 2,
      entries =
        [\<lparr>key = [1], val = Some [0], owner_tid = TidVal 2, deleted = False, dirty = False,
           is_default = True, version = 0, old_val = Some [0]\<rparr>,
         \<lparr>key = [2], val = Some [8], owner_tid = TidVal 2, deleted = False, dirty = True,
           is_default = False, version = 1, old_val = Some [0]\<rparr>]\<rparr>"

definition merge_example :: "mem world" where
  "merge_example =
     \<lparr>backend = [],
      tables = (\<lambda>h. None)([DBPtr 0] \<mapsto> merge_example_parent,
                            [TidVal 2, DBPtr 0] \<mapsto> merge_example_child)\<rparr>"




section \<open>Notions used in the statements\<close>

text \<open>
  \<open>empty_at\<close>: the table at a handle, if there is one, has no entry. \<open>prepared\<close>: the
  two flags \<open>Prepare\<close> sets on every child it registers, which no method clears. \<open>run_ops\<close>:
  a sequence of \<open>Get\<close>, \<open>Put\<close> and \<open>Del\<close> calls on one database, results dropped.
\<close>

definition empty_at :: "'s world \<Rightarrow> handle \<Rightarrow> bool" where
  "empty_at w p = (case tables w p of None \<Rightarrow> True | Some tbl \<Rightarrow> entries tbl = [])"

datatype op = OpGet bytes | OpPut bytes "bytes option" | OpDel bytes

fun run_op :: "'s storage \<Rightarrow> 's table_ops \<Rightarrow> mvccdb \<Rightarrow> op \<Rightarrow> 's world \<Rightarrow> mvccdb \<times> 's world" where
  "run_op S T db (OpGet k) w = (db, snd (MVCCDB_Get S T db k w))"
| "run_op S T db (OpPut k v) w = snd (MVCCDB_Put S T db k v w)"
| "run_op S T db (OpDel k) w = snd (MVCCDB_Del S T db k w)"

fun run_ops :: "'s storage \<Rightarrow> 's table_ops \<Rightarrow> mvccdb \<Rightarrow> op list \<Rightarrow> 's world \<Rightarrow> mvccdb \<times> 's world" where
  "run_ops S T db [] w = (db, w)"
| "run_ops S T db (x # xs) w = (case run_op S T db x w of (db', w') \<Rightarrow> run_ops S T db' xs w')"

definition prepared :: "mvccdb \<Rightarrow> bool" where
  "prepared d = (isInTransaction d \<and> isPreparedDB d)"

text \<open>
  \<open>db := NewMVCCDB(s); db.Begin(); db.Put([1], [2]); db.Get([3]); db.Del([3])\<close> on a
  backend that binds \<open>[3]\<close> to \<open>[4]\<close>.
\<close>

definition rollback_scenario :: "mvccdb \<times> mem world" where
  "rollback_scenario =
     (let T = spec_tables mem_storage;
          (db0, w0) = NewMVCCDB T 0 (no_tables [([3], Some [4])]);
          (e1, db1) = Begin db0
      in run_ops mem_storage T db1 [OpPut [1] (Some [2]), OpGet [3], OpDel [3]] w0)"

section \<open>BatchTrie (package trie)\<close>

text \<open>
  The type \<open>Action\<close> and the struct \<open>Entry\<close> of the change log. Entries are built
  completely before they are stored and never written afterwards, so an \<open>*Entry\<close> is
  modelled by its value.
\<close>

datatype action = Insert | Update | Delete | Get

record entry =
  action :: action
  ekey :: bytes
  old :: "bytes option"
  update :: "bytes option"

text \<open>
  \<open>Trie\<close> and \<open>byteutils.Hex\<close> are not among the source files: the batch trie takes the
  operations it calls as a parameter over an opaque trie \<open>'t\<close>. A Go result pair
  \<open>([]byte, error)\<close> is kept as a pair, \<open>None\<close> for nil.
\<close>

record 't deps =
  Hex :: "bytes \<Rightarrow> string"
  trie_Get :: "'t \<Rightarrow> bytes \<Rightarrow> bytes option \<times> error option"
  trie_Put :: "'t \<Rightarrow> bytes \<Rightarrow> bytes option \<Rightarrow> (bytes option \<times> error option) \<times> 't"
  trie_Del :: "'t \<Rightarrow> bytes \<Rightarrow> (bytes option \<times> error option) \<times> 't"

text \<open>
  A Go map from the hex key to \<open>*Entry\<close>; \<open>None\<close> is the nil map. The bindings are
  listed in the order in which a \<open>range\<close> loop visits them, which Go leaves open.
\<close>

type_synonym oplog = "(string \<times> entry) list option"

record 't BatchTrie =
  trie :: 't
  changelog :: "entry list"
  batching :: bool
  initialoplog :: oplog
  finaloplog :: oplog

text \<open>
  A call either panics or returns. Reading a nil map finds nothing (\<open>has_key\<close>);
  assigning into a nil map panics (\<open>assign\<close>).
\<close>

datatype 'a outcome = Panic | Return 'a

definition has_key :: "oplog \<Rightarrow> string \<Rightarrow> bool" where
  "has_key m k = (case m of None \<Rightarrow> False | Some xs \<Rightarrow> map_of xs k \<noteq> None)"

definition assign :: "oplog \<Rightarrow> string \<Rightarrow> entry \<Rightarrow> oplog outcome" where
  "assign m k e =
     (case m of
        None \<Rightarrow> Panic
      | Some xs \<Rightarrow>
          Return (Some (if map_of xs k = None then xs @ [(k, e)]
                        else map (\<lambda>b. if fst b = k then (k, e) else b) xs)))"

text \<open>
  The two map statements shared by \<open>Get\<close>, \<open>Put\<close> and \<open>Del\<close>: the entry becomes the
  initial operation of its key if there is none yet, and the final operation always
  (\<open>Put\<close>, \<open>Del\<close>) or under the test written in \<open>Get\<close>.
\<close>

definition record_ops ::
  "bool \<Rightarrow> string \<Rightarrow> entry \<Rightarrow> 't BatchTrie \<Rightarrow> 't BatchTrie outcome" where
  "record_ops always k e bt =
     (case (if \<not> has_key (initialoplog bt) k then assign (initialoplog bt) k e
            else Return (initialoplog bt)) of
        Panic \<Rightarrow> Panic
      | Return i \<Rightarrow>
          (case (if always \<or> \<not> has_key (finaloplog bt) k \<or> (has_key (finaloplog bt) k \<and> action e = Get)
                 then assign (finaloplog bt) k e else Return (finaloplog bt)) of
             Panic \<Rightarrow> Panic
           | Return f \<Rightarrow> Return (bt\<lparr>initialoplog := i, finaloplog := f\<rparr>)))"

definition BatchTrie_Get ::
  "'t deps \<Rightarrow> 't BatchTrie \<Rightarrow> bytes \<Rightarrow> ((bytes option \<times> error option) \<times> 't BatchTrie) outcome" where
  "BatchTrie_Get P bt k =
     (case trie_Get P (trie bt) k of
        (v, err) \<Rightarrow>
          (case record_ops False (Hex P k) \<lparr>action = Get, ekey = k, old = v, update = v\<rparr> bt of
             Panic \<Rightarrow> Panic
           | Return bt' \<Rightarrow> Return ((v, err), bt')))"

text \<open>\<open>if bt.batching { bt.changelog = append(bt.changelog, entry) }\<close>\<close>

definition log_change :: "entry \<Rightarrow> 't BatchTrie \<Rightarrow> 't BatchTrie" where
  "log_change e bt = (if batching bt then bt\<lparr>changelog := changelog bt @ [e]\<rparr> else bt)"

definition BatchTrie_Put ::
  "'t deps \<Rightarrow> 't BatchTrie \<Rightarrow> bytes \<Rightarrow> bytes option
     \<Rightarrow> ((bytes option \<times> error option) \<times> 't BatchTrie) outcome" where
  "BatchTrie_Put P bt k v =
     (case trie_Get P (trie bt) k of
        (old_v, getErr) \<Rightarrow>
          (let e = (if getErr \<noteq> None then \<lparr>action = Insert, ekey = k, old = None, update = v\<rparr>
                    else \<lparr>action = Update, ekey = k, old = old_v, update = v\<rparr>)
           in case trie_Put P (trie bt) k v of
                ((rootHash, putErr), t') \<Rightarrow>
                  if putErr \<noteq> None then Return ((None, putErr), bt\<lparr>trie := t'\<rparr>)
                  else (case record_ops True (Hex P k) e (bt\<lparr>trie := t'\<rparr>) of
                          Panic \<Rightarrow> Panic
                        | Return bt' \<Rightarrow> Return ((rootHash, None), log_change e bt'))))"

definition BatchTrie_Del ::
  "'t deps \<Rightarrow> 't BatchTrie \<Rightarrow> bytes \<Rightarrow> ((bytes option \<times> error option) \<times> 't BatchTrie) outcome" where
  "BatchTrie_Del P bt k =
     (case trie_Get P (trie bt) k of
        (old_v, getErr) \<Rightarrow>
          (let e = (if getErr = None then \<lparr>action = Delete, ekey = k, old = old_v, update = None\<rparr>
                    else \<lparr>action = Delete, ekey = k, old = None, update = None\<rparr>)
           in case trie_Del P (trie bt) k of
                ((rootHash, err), t') \<Rightarrow>
                  if err \<noteq> None then Return ((None, err), bt\<lparr>trie := t'\<rparr>)
                  else (case record_ops True (Hex P k) e (bt\<lparr>trie := t'\<rparr>) of
                          Panic \<Rightarrow> Panic
                        | Return bt' \<Rightarrow> Return ((rootHash, None), log_change e bt'))))"

definition BeginBatch :: "'t BatchTrie \<Rightarrow> 't BatchTrie" where
  "BeginBatch bt = bt\<lparr>batching := True\<rparr>"

definition BatchTrie_Commit :: "'t BatchTrie \<Rightarrow> 't BatchTrie" where
  "BatchTrie_Commit bt = bt\<lparr>changelog := [], batching := False\<rparr>"

text \<open>
  \<open>RollBack\<close>: \<open>compress\<close> keeps the first entry of every key of the change log,
  \<open>undo\<close> is the loop over the compressed log (visited here in the order of first
  occurrence), whose trie results the code drops.
\<close>

fun compress :: "'t deps \<Rightarrow> (string \<times> entry) list \<Rightarrow> entry list \<Rightarrow> (string \<times> entry) list" where
  "compress P m [] = m"
| "compress P m (e # es) =
     (if map_of m (Hex P (ekey e)) = None then compress P (m @ [(Hex P (ekey e), e)]) es
      else compress P m es)"

fun undo :: "'t deps \<Rightarrow> (string \<times> entry) list \<Rightarrow> 't \<Rightarrow> 't" where
  "undo P [] t = t"
| "undo P ((k, e) # rest) t =
     (case action e of
        Insert \<Rightarrow> undo P rest (snd (trie_Del P t (ekey e)))
      | Update \<Rightarrow> undo P rest (snd (trie_Put P t (ekey e) (old e)))
      | Delete \<Rightarrow> undo P rest (snd (trie_Put P t (ekey e) (old e)))
      | Get \<Rightarrow> undo P rest t)"

definition BatchTrie_RollBack :: "'t deps \<Rightarrow> 't BatchTrie \<Rightarrow> 't BatchTrie" where
  "BatchTrie_RollBack P bt =
     \<lparr>trie = undo P (compress P [] (changelog bt)) (trie bt),
      changelog = [],
      batching = False,
      initialoplog = None,
      finaloplog = None\<rparr>"

text \<open>
  Inputs for evaluation: a trie kept as an association list, whose \<open>Put\<close> succeeds and
  whose \<open>Del\<close> fails on a key without binding, with hexadecimal keys; the empty batch
  trie \<open>NewBatchTrie\<close> returns over it; \<open>returned\<close>, the batch trie after a call that
  returned.
\<close>

definition hex_digit :: "nat \<Rightarrow> char" where
  "hex_digit n = ''0123456789abcdef'' ! n"

type_synonym list_trie = "(bytes \<times> bytes option) list"

definition list_trie :: "list_trie deps" where
  "list_trie =
     \<lparr>Hex = concat \<circ> map (\<lambda>b. [hex_digit (unat b div 16), hex_digit (unat b mod 16)]),
      trie_Get = (\<lambda>t k. case map_of t k of None \<Rightarrow> (None, Some ErrKeyNotFound)
                                        | Some v \<Rightarrow> (v, None)),
      trie_Put = (\<lambda>t k v. ((Some [], None), (k, v) # filter (\<lambda>b. fst b \<noteq> k) t)),
      trie_Del = (\<lambda>t k. if map_of t k = None then ((None, Some ErrKeyNotFound), t)
                         else ((Some [], None), filter (\<lambda>b. fst b \<noteq> k) t))\<rparr>"

definition fresh_trie :: "list_trie BatchTrie" where
  "fresh_trie = \<lparr>trie = [], changelog = [], batching = False,
                 initialoplog = Some [], finaloplog = Some []\<rparr>"

definition returned :: "('r \<times> 'b) outcome \<Rightarrow> 'b \<Rightarrow> 'b" where
  "returned x d = (case x of Panic \<Rightarrow> d | Return (r, b) \<Rightarrow> b)"

text \<open>
  \<open>bt.Put([3], [4]); bt.BeginBatch(); bt.Put([1], [2]); bt.RollBack()\<close> on the empty
  batch trie.
\<close>

definition rolled_back :: "list_trie BatchTrie" where
  "rolled_back =
     BatchTrie_RollBack list_trie
       (returned (BatchTrie_Put list_trie
          (BeginBatch (returned (BatchTrie_Put list_trie fresh_trie [3] (Some [4])) fresh_trie))
          [1] (Some [2])) fresh_trie)"

section \<open>Properties of the database\<close>

lemmas scenario_defs =
  dirty_child_scenario_def store_child_def NewMVCCDB_def spec_tables_def StagingTable_New_def
  Begin_def Prepare_def StagingTable_Prepare_def no_tables_def MVCCDB_Put_def
  StagingTable_Put_def mem_storage_def getFromStorage_def insert_default_def set_entries_def
  find_entry_def materialize_def replace_entry_def write_record_def Let_def

lemma IsPreparedDBDirty_False:
  "\<not> IsPreparedDBDirty db" "\<not> IsPreparedDBDirty_loop cs"
  by (induction db and cs rule: IsPreparedDBDirty_IsPreparedDBDirty_loop.induct) simp_all

lemma dirty_child_scenario_root: "fst dirty_child_scenario = dirty_child_root"
  by (simp add: scenario_defs dirty_child_root_def split: prod.splits)

text \<open>
  Claim C1. \<open>IsPreparedDBDirty\<close> should answer true exactly when some descendant has
  \<open>isDirtyDB\<close> set. The function never reads \<open>isDirtyDB\<close>: after
  \<open>Begin; Prepare(1); child.Put\<close> the child is dirty and the answer for the root is
  false (by \<open>IsPreparedDBDirty_False\<close> it is false for every database).
\<close>

theorem IsPreparedDBDirty_dirty_child:
  "list_ex isDirtyDB (descendants dirty_child_root) \<and>
   IsPreparedDBDirty dirty_child_root = False"
  by (simp add: dirty_child_root_def)

lemma Commit_never_PreparedDBIsDirty:
  "fst (Commit S T db w) \<noteq> Some ErrPreparedDBIsDirty"
  by (simp add: Commit_def IsPreparedDBDirty_False)

text \<open>
  Claim C2. \<open>Commit\<close> on a root in a transaction should fail with
  \<open>ErrPreparedDBIsDirty\<close> exactly when a prepared descendant is still dirty. In the state
  after \<open>Begin; Prepare(1); child.Put\<close> the child is dirty, and \<open>Commit\<close>, over any
  backend and staging table, returns nil and ends the transaction (by
  \<open>Commit_never_PreparedDBIsDirty\<close> it never returns that error).
\<close>

theorem Commit_dirty_child:
  "list_ex isDirtyDB (descendants dirty_child_root) \<and>
   isInTransaction dirty_child_root \<and>
   isPreparedDB dirty_child_root = False \<and>
   fst (Commit S T dirty_child_root w) = None \<and>
   isInTransaction (fst (snd (Commit S T dirty_child_root w))) = False \<and>
   snd (snd (Commit S T dirty_child_root w)) =
     Commit_loop S (table_GetVersionizedValues T (stagingTable dirty_child_root) w) w"
  by (simp add: dirty_child_root_def Commit_def)

lemma Commit_loop_tables: "tables (Commit_loop S vs w) = tables w"
  by (induction vs arbitrary: w)
     (simp_all add: putToStorage_def delFromStorage_def split: prod.splits)

lemma Commit_loop_backend:
  "backend (Commit_loop S vs w) =
     foldl (\<lambda>s v. flush S v s) (backend w) (filter (\<lambda>v. \<not> is_default v \<and> dirty v) vs)"
  by (induction vs arbitrary: w)
     (simp_all add: putToStorage_def delFromStorage_def flush_def split: prod.splits)

text \<open>
  Claim C5. A \<open>Commit\<close> that succeeds applies to the backend, for the records of the
  staging table that are dirty and not default, in the order of the iteration,
  \<open>Del(key)\<close> when the record is deleted and \<open>Put(key, val)\<close> otherwise, and nothing
  for any other record; the staging tables are as before and \<open>isInTransaction\<close> and
  \<open>isDirtyDB\<close> are false afterwards.
\<close>

theorem Commit_flushes:
  assumes "Commit S T db w = (None, db', w')"
  shows "backend w' =
           foldl (\<lambda>s v. flush S v s) (backend w)
             (filter (\<lambda>v. \<not> is_default v \<and> dirty v)
                (table_GetVersionizedValues T (stagingTable db) w))
         \<and> tables w' = tables w \<and> isInTransaction db' = False \<and> isDirtyDB db' = False"
  using assms
  by (cases db) (auto simp: Commit_def Commit_loop_tables Commit_loop_backend split: if_splits)

text \<open>On the recording backend: one \<open>Put\<close>, one \<open>Del\<close>, nothing else.\<close>

theorem Commit_flushes_witness:
  "Commit log_storage (spec_tables log_storage) (MVCCDB (DBPtr 0) [DBPtr 0] True False True [])
     commit_example
   = (None, MVCCDB (DBPtr 0) [DBPtr 0] False False False [],
      commit_example\<lparr>backend := [PutCall [2] (Some [9]), DelCall [3]]\<rparr>)
   \<and> backend (commit_example\<lparr>backend := [PutCall [2] (Some [9]), DelCall [3]]\<rparr>)
     = foldl (\<lambda>s v. flush log_storage v s) (backend commit_example)
             (filter (\<lambda>v. \<not> is_default v \<and> dirty v)
                (table_GetVersionizedValues (spec_tables log_storage) [DBPtr 0] commit_example))"
proof -
  have c: "Commit log_storage (spec_tables log_storage)
             (MVCCDB (DBPtr 0) [DBPtr 0] True False True []) commit_example
           = (None, MVCCDB (DBPtr 0) [DBPtr 0] False False False [],
              commit_example\<lparr>backend := [PutCall [2] (Some [9]), DelCall [3]]\<rparr>)"
    by (simp add: Commit_def IsPreparedDBDirty_False spec_tables_def
          StagingTable_GetVersionizedValues_def commit_example_def log_storage_def
          putToStorage_def delFromStorage_def)
  show ?thesis using c Commit_flushes [OF c] by simp
qed

text \<open>
  Claim C6. Outside a transaction \<open>Get\<close>, \<open>Put\<close> and \<open>Del\<close> return what the backend's
  \<open>Get\<close>, \<open>Put\<close> and \<open>Del\<close> return and leave the backend as that call leaves it; no
  operation of the staging table is called, and the database object and the staging tables
  are unchanged.
\<close>

theorem MVCCDB_passthrough:
  assumes "\<not> isInTransaction db"
  shows "MVCCDB_Get S T db k w = (storage_Get S k (backend w), w)
       \<and> MVCCDB_Put S T db k v w =
           (fst (storage_Put S k v (backend w)), db, w\<lparr>backend := snd (storage_Put S k v (backend w))\<rparr>)
       \<and> MVCCDB_Del S T db k w =
           (fst (storage_Del S k (backend w)), db, w\<lparr>backend := snd (storage_Del S k (backend w))\<rparr>)"
  using assms
  by (simp add: MVCCDB_Get_def MVCCDB_Put_def MVCCDB_Del_def getFromStorage_def putToStorage_def
        delFromStorage_def split: prod.splits)

theorem MVCCDB_passthrough_witness:
  "\<not> isInTransaction (MVCCDB (DBPtr 0) [DBPtr 0] False False False [])
   \<and> MVCCDB_Get mem_storage (spec_tables mem_storage)
        (MVCCDB (DBPtr 0) [DBPtr 0] False False False []) [1] (no_tables [([1], Some [2])])
      = (Inr (Some [2]), no_tables [([1], Some [2])])
   \<and> MVCCDB_Get mem_storage (spec_tables mem_storage)
        (MVCCDB (DBPtr 0) [DBPtr 0] False False False []) [3] (no_tables [([1], Some [2])])
      = (Inl ErrKeyNotFound, no_tables [([1], Some [2])])
   \<and> MVCCDB_Put mem_storage (spec_tables mem_storage)
        (MVCCDB (DBPtr 0) [DBPtr 0] False False False []) [1] (Some [4]) (no_tables [([1], Some [2])])
      = (None, MVCCDB (DBPtr 0) [DBPtr 0] False False False [], no_tables [([1], Some [4])])
   \<and> MVCCDB_Del mem_storage (spec_tables mem_storage)
        (MVCCDB (DBPtr 0) [DBPtr 0] False False False []) [1] (no_tables [([1], Some [2])])
      = (None, MVCCDB (DBPtr 0) [DBPtr 0] False False False [], no_tables [])"
proof -
  have n: "\<not> isInTransaction (MVCCDB (DBPtr 0) [DBPtr 0] False False False [])" by simp
  show ?thesis
    using n MVCCDB_passthrough [OF n, of mem_storage "spec_tables mem_storage" "[1]"
              "no_tables [([1], Some [2])]" "Some [4]"]
          MVCCDB_passthrough [OF n, of mem_storage "spec_tables mem_storage" "[3]"
              "no_tables [([1], Some [2])]" "Some [4]"]
    by (simp add: mem_storage_def no_tables_def)
qed

text \<open>
  Claim C7. In a transaction, once the staging table has returned a versionized value,
  \<open>Get\<close> answers \<open>ErrKeyNotFound\<close> exactly when that value is deleted or has a nil
  \<open>val\<close>, and returns its \<open>val\<close> otherwise.
\<close>

theorem MVCCDB_Get_in_transaction:
  assumes "isInTransaction db" and "table_Get T (stagingTable db) k w = (Inr value, w')"
  shows "(MVCCDB_Get S T db k w = (Inl ErrKeyNotFound, w') \<longleftrightarrow> deleted value \<or> val value = None)
       \<and> (\<not> (deleted value \<or> val value = None) \<longrightarrow> MVCCDB_Get S T db k w = (Inr (val value), w'))"
  using assms by (simp add: MVCCDB_Get_def)

theorem MVCCDB_Get_in_transaction_witness:
  "isInTransaction (MVCCDB (DBPtr 0) [DBPtr 0] True False True [])
   \<and> MVCCDB_Get log_storage (spec_tables log_storage)
       (MVCCDB (DBPtr 0) [DBPtr 0] True False True []) [2] commit_example
     = (Inr (Some [9]), commit_example)
   \<and> MVCCDB_Get log_storage (spec_tables log_storage)
       (MVCCDB (DBPtr 0) [DBPtr 0] True False True []) [3] commit_example
     = (Inl ErrKeyNotFound, commit_example)"
proof -
  have i: "isInTransaction (MVCCDB (DBPtr 0) [DBPtr 0] True False True [])" by simp
  have g2: "table_Get (spec_tables log_storage)
              (stagingTable (MVCCDB (DBPtr 0) [DBPtr 0] True False True [])) [2] commit_example
            = (Inr \<lparr>key = [2], val = Some [9], owner_tid = DBPtr 0, deleted = False, dirty = True,
                    is_default = False, version = 1, old_val = None\<rparr>, commit_example)"
    by (simp add: spec_tables_def commit_example_def find_entry_def)
  have g3: "table_Get (spec_tables log_storage)
              (stagingTable (MVCCDB (DBPtr 0) [DBPtr 0] True False True [])) [3] commit_example
            = (Inr \<lparr>key = [3], val = None, owner_tid = DBPtr 0, deleted = True, dirty = True,
                    is_default = False, version = 2, old_val = Some [5]\<rparr>, commit_example)"
    by (simp add: spec_tables_def commit_example_def find_entry_def)
  show ?thesis
    using i MVCCDB_Get_in_transaction [OF i g2, of log_storage]
            MVCCDB_Get_in_transaction [OF i g3, of log_storage]
    by simp
qed

lemma Prepare_returns_prepared_child:
  "fst (Prepare (spec_tables mem_storage) (MVCCDB (DBPtr 0) [DBPtr 0] True False False [])
          (Some (TidVal 1)) (snd (NewMVCCDB (spec_tables mem_storage) 0 (no_tables []))))
   = Inr prepared_child"
  by (simp add: scenario_defs prepared_child_def)

text \<open>
  Claim C8. \<open>Begin\<close> on a prepared database is to fail with the error for prepared
  databases, that check coming before the one for a nested transaction. \<open>Begin\<close> tests
  \<open>isInTransaction\<close> first, and \<open>Prepare\<close> creates its child with that flag set: on the
  child returned by \<open>Prepare(1)\<close> the call answers \<open>ErrUnsupportedNestedTransaction\<close>,
  where \<open>Commit\<close> and \<open>RollBack\<close> on the same child answer their errors for prepared
  databases.
\<close>

theorem Begin_prepared_child:
  "isPreparedDB prepared_child
   \<and> Begin prepared_child = (Some ErrUnsupportedNestedTransaction, prepared_child)
   \<and> Begin prepared_child \<noteq> (Some ErrUnsupportedBeginInPreparedDB, prepared_child)
   \<and> Commit S T prepared_child w = (Some ErrUnsupportedCommitInPreparedDB, prepared_child, w)
   \<and> RollBack T prepared_child w
       = (Some ErrUnsupportedRollBackInPreparedDB, prepared_child, w)"
  by (simp add: prepared_child_def Begin_def Commit_def RollBack_def)

lemma set_field_simps:
  "isDirtyDB (set_isDirtyDB b db) = b"
  "isInTransaction (set_isDirtyDB b db) = isInTransaction db"
  "isPreparedDB (set_isDirtyDB b db) = isPreparedDB db"
  "stagingTable (set_isDirtyDB b db) = stagingTable db"
  "preparedDBs (set_isDirtyDB b db) = preparedDBs db"
  "isInTransaction (set_isInTransaction b db) = b"
  "isDirtyDB (set_isInTransaction b db) = isDirtyDB db"
  "isPreparedDB (set_isInTransaction b db) = isPreparedDB db"
  "stagingTable (set_isInTransaction b db) = stagingTable db"
  "preparedDBs (set_isInTransaction b db) = preparedDBs db"
  "preparedDBs (set_preparedDBs cs db) = cs"
  "isInTransaction (set_preparedDBs cs db) = isInTransaction db"
  "isDirtyDB (set_preparedDBs cs db) = isDirtyDB db"
  "isPreparedDB (set_preparedDBs cs db) = isPreparedDB db"
  "stagingTable (set_preparedDBs cs db) = stagingTable db"
  by (cases db; simp)+

lemma dirty_child_scenario_world:
  "snd (snd dirty_child_scenario) =
     \<lparr>backend = [],
      tables = (\<lambda>h. None)
        ([DBPtr 0] \<mapsto>
           \<lparr>table_tid = DBPtr 0,
            entries = [\<lparr>key = [1], val = None, owner_tid = DBPtr 0, deleted = False,
                        dirty = False, is_default = True, version = 0, old_val = None\<rparr>]\<rparr>,
         [TidVal 1, DBPtr 0] \<mapsto>
           \<lparr>table_tid = TidVal 1,
            entries = [\<lparr>key = [1], val = Some [2], owner_tid = TidVal 1, deleted = False,
                        dirty = True, is_default = False, version = 1, old_val = None\<rparr>]\<rparr>)\<rparr>"
  by (simp add: scenario_defs fun_upd_twist split: prod.splits)


lemma dirty_child_scenario_child:
  "fst (snd dirty_child_scenario) = MVCCDB (TidVal 1) [TidVal 1, DBPtr 0] True True True []"
  by (simp add: scenario_defs split: prod.splits)

lemmas eval_defs =
  StagingTable_MergeToParent_def conflict_of_def find_entry_def StagingTable_Purge_def
  under_def merge_record_def upsert_def CheckAndUpdate_def spec_tables_def

lemmas merge_defs =
  StagingTable_MergeToParent_def conflict_of_def find_entry_def merge_example_def
  merge_example_parent_def merge_example_child_def

lemma MergeToParent_failure: "StagingTable_MergeToParent h w = (Inl e, w') \<Longrightarrow> w' = w"
  by (auto simp: StagingTable_MergeToParent_def split: option.splits if_splits)

lemma CheckAndUpdate_failure:
  assumes "CheckAndUpdate (spec_tables S) db w = (Inl e, db', w')"
  shows "w' = w \<and> db' = db"
proof -
  obtain r w1 where m: "StagingTable_MergeToParent (stagingTable db) w = (r, w1)"
    by (cases "StagingTable_MergeToParent (stagingTable db) w") auto
  show ?thesis
  proof (cases r)
    case (Inl e1)
    with m have "w1 = w" by (simp add: MergeToParent_failure)
    with assms m Inl show ?thesis
      by (auto simp: CheckAndUpdate_def spec_tables_def split: if_splits)
  next
    case (Inr ts)
    with assms m show ?thesis
      by (auto simp: CheckAndUpdate_def spec_tables_def split: if_splits)
  qed
qed

lemma CheckAndUpdate_success:
  assumes "CheckAndUpdate (spec_tables S) db w = (Inr ret, db', w')"
  shows "isDirtyDB db' = False \<and> StagingTable_MergeToParent (stagingTable db) w = (Inr ret, w')"
proof -
  obtain r w1 where m: "StagingTable_MergeToParent (stagingTable db) w = (r, w1)"
    by (cases "StagingTable_MergeToParent (stagingTable db) w") auto
  with assms show ?thesis
    by (cases r) (auto simp: CheckAndUpdate_def spec_tables_def set_field_simps split: if_splits)
qed

text \<open>
  Claim C3. A merge of a child is all or nothing: when \<open>MergeToParent\<close> fails, every
  staging table (so the parent's and the child's) is as it was; when \<open>CheckAndUpdate\<close>
  fails, the tables and the child database, with its \<open>isDirtyDB\<close>, are as they were;
  \<open>isDirtyDB\<close> is cleared when \<open>CheckAndUpdate\<close> succeeds, which it does exactly when
  the merge does.
\<close>

theorem merge_all_or_nothing:
  "(StagingTable_MergeToParent h w = (Inl e, w') \<longrightarrow> w' = w) \<and>
   (CheckAndUpdate (spec_tables S) db w = (Inl e, db', w') \<longrightarrow> w' = w \<and> db' = db) \<and>
   (CheckAndUpdate (spec_tables S) db w = (Inr ret, db', w') \<longrightarrow>
      isDirtyDB db' = False \<and> StagingTable_MergeToParent (stagingTable db) w = (Inr ret, w'))"
  using MergeToParent_failure [of h w e w'] CheckAndUpdate_failure [of S db w e db' w']
    CheckAndUpdate_success [of S db w ret db' w']
  by blast

theorem merge_all_or_nothing_witness:
  "CheckAndUpdate (spec_tables mem_storage) (MVCCDB (TidVal 2) [TidVal 2, DBPtr 0] True True True [])
     merge_example
   = (Inl (ErrConflictWithSibling (TidVal 1)),
      MVCCDB (TidVal 2) [TidVal 2, DBPtr 0] True True True [], merge_example)
   \<and> StagingTable_MergeToParent [TidVal 2, DBPtr 0] merge_example
     = (Inl (ErrConflictWithSibling (TidVal 1)), merge_example)
   \<and> fst (CheckAndUpdate (spec_tables mem_storage) (fst (snd dirty_child_scenario))
            (snd (snd dirty_child_scenario))) = Inr []
   \<and> isDirtyDB (fst (snd dirty_child_scenario))
   \<and> isDirtyDB (fst (snd (CheckAndUpdate (spec_tables mem_storage) (fst (snd dirty_child_scenario))
            (snd (snd dirty_child_scenario))))) = False"
proof -
  let ?c = "MVCCDB (TidVal 2) [TidVal 2, DBPtr 0] True True True []"
  let ?d = "fst (snd dirty_child_scenario)"
  let ?w = "snd (snd dirty_child_scenario)"
  let ?r = "CheckAndUpdate (spec_tables mem_storage) ?d ?w"
  have f: "CheckAndUpdate (spec_tables mem_storage) ?c merge_example
           = (Inl (ErrConflictWithSibling (TidVal 1)), ?c, merge_example)"
    by (simp add: eval_defs merge_defs)
  have m: "StagingTable_MergeToParent [TidVal 2, DBPtr 0] merge_example
           = (Inl (ErrConflictWithSibling (TidVal 1)), merge_example)"
    by (simp add: eval_defs merge_defs)
  have r: "fst ?r = Inr []"
    by (simp add: dirty_child_scenario_child dirty_child_scenario_world eval_defs)
  then have s: "?r = (Inr [], fst (snd ?r), snd (snd ?r))"
    by (metis prod.collapse)
  have d: "isDirtyDB ?d" by (simp add: dirty_child_scenario_child)
  note t1 = merge_all_or_nothing [of "[TidVal 2, DBPtr 0]" merge_example
      "ErrConflictWithSibling (TidVal 1)" merge_example mem_storage ?c ?c "[]"]
  note t2 = merge_all_or_nothing [of "[TidVal 1, DBPtr 0]" ?w "ErrConflictWithSibling (TidVal 1)"
      "snd (snd ?r)" mem_storage ?d "fst (snd ?r)" "[]"]
  from t2 s have c: "isDirtyDB (fst (snd ?r)) = False" by blast
  from f m r d c t1 show ?thesis by blast
qed











text \<open>
  The two flags of a prepared database stay: on it \<open>Begin\<close>, \<open>Commit\<close> and \<open>RollBack\<close>
  fail and change nothing, and the other methods leave both flags set. A child returned
  by \<open>Prepare\<close> is prepared and has no children yet.
\<close>

lemma prepared_kept:
  assumes "prepared c"
  shows "Begin c = (Some ErrUnsupportedNestedTransaction, c)"
    and "Commit S T c w = (Some ErrUnsupportedCommitInPreparedDB, c, w)"
    and "RollBack T c w = (Some ErrUnsupportedRollBackInPreparedDB, c, w)"
    and "prepared (fst (snd (MVCCDB_Put S T c k v w)))"
    and "prepared (fst (snd (MVCCDB_Del S T c k w)))"
    and "prepared (fst (snd (CheckAndUpdate T c w)))"
    and "prepared (fst (snd (Reset T c w)))"
    and "prepared (fst (snd (Prepare T c t w)))"
  using assms
  by (cases c;
      auto simp: prepared_def Begin_def Commit_def RollBack_def MVCCDB_Put_def MVCCDB_Del_def
        CheckAndUpdate_def Prepare_def Let_def set_field_simps
        split: prod.splits sum.splits option.splits)+

lemma Prepare_child_prepared:
  "Prepare T db t w = (Inr child, db', w') \<Longrightarrow> prepared child \<and> descendants child = []"
  by (auto simp: Prepare_def prepared_def Let_def
           split: if_splits option.splits prod.splits sum.splits)

lemma Purge_backend: "backend (StagingTable_Purge h w) = backend w"
  by (simp add: StagingTable_Purge_def)

lemma Purge_empty: "under h p \<Longrightarrow> empty_at (StagingTable_Purge h w) p"
  by (simp add: StagingTable_Purge_def empty_at_def split: option.splits)

lemma Purge_keeps_empty: "empty_at w p \<Longrightarrow> empty_at (StagingTable_Purge h w) p"
  by (auto simp: StagingTable_Purge_def empty_at_def split: option.splits)

lemma spec_tables_simps:
  "NewStagingTable (spec_tables S) = StagingTable_New"
  "table_Get (spec_tables S) = StagingTable_Get S"
  "table_Put (spec_tables S) = StagingTable_Put S"
  "table_Del (spec_tables S) = StagingTable_Del S"
  "table_Prepare (spec_tables S) = StagingTable_Prepare"
  "table_MergeToParent (spec_tables S) = StagingTable_MergeToParent"
  "table_Purge (spec_tables S) = StagingTable_Purge"
  "table_GetVersionizedValues (spec_tables S) = StagingTable_GetVersionizedValues"
  by (simp_all add: spec_tables_def)

lemma Reset_backend:
  "backend (snd (snd (Reset (spec_tables S) d w))) = backend w"
  "backend (snd (Reset_loop (spec_tables S) cs w)) = backend w"
proof (induction "spec_tables S" d w and "spec_tables S" cs w rule: Reset_Reset_loop.induct)
  case (1 t h i p d cs w)
  then show ?case
    by (cases "Reset_loop (spec_tables S) cs w") (simp add: spec_tables_simps Purge_backend)
next
  case (2 w)
  then show ?case by simp
next
  case (3 c pdb rest w)
  then show ?case by (simp split: prod.splits) (metis snd_conv)
qed

lemma Reset_keeps_empty:
  "empty_at w q \<Longrightarrow> empty_at (snd (snd (Reset (spec_tables S) d w))) q"
  "empty_at w q \<Longrightarrow> empty_at (snd (Reset_loop (spec_tables S) cs w)) q"
proof (induction "spec_tables S" d w and "spec_tables S" cs w rule: Reset_Reset_loop.induct)
  case (1 t h i p d cs w)
  then show ?case
    by (cases "Reset_loop (spec_tables S) cs w") (simp add: spec_tables_simps Purge_keeps_empty)
next
  case (2 w)
  then show ?case by simp
next
  case (3 c pdb rest w)
  then show ?case by (simp split: prod.splits) (metis snd_conv)
qed

lemma Reset_handles:
  "stagingTable (fst (snd (Reset T d w))) = stagingTable d \<and>
   map stagingTable (descendants (fst (snd (Reset T d w)))) = map stagingTable (descendants d)"
  "map fst (fst (Reset_loop T cs w)) = map fst cs \<and>
   map stagingTable (descendants_list (fst (Reset_loop T cs w))) = map stagingTable (descendants_list cs)"
proof (induction T d w and T cs w rule: Reset_Reset_loop.induct)
  case (1 T t h i p d cs w)
  then show ?case by (cases "Reset_loop T cs w") simp
next
  case (2 T w)
  then show ?case by simp
next
  case (3 T c pdb rest w)
  then show ?case by (simp split: prod.splits) (metis fst_conv snd_conv)
qed

lemma Reset_prepared:
  "prepared d \<Longrightarrow> list_all prepared (descendants d) \<Longrightarrow>
     fst (Reset (spec_tables S) d w) = None \<and>
     isDirtyDB (fst (snd (Reset (spec_tables S) d w))) = False \<and>
     list_all (\<lambda>x. isDirtyDB x = False) (descendants (fst (snd (Reset (spec_tables S) d w)))) \<and>
     (\<forall>q. under (stagingTable d) q \<longrightarrow> empty_at (snd (snd (Reset (spec_tables S) d w))) q) \<and>
     (\<forall>x\<in>set (descendants d). \<forall>q. under (stagingTable x) q \<longrightarrow>
         empty_at (snd (snd (Reset (spec_tables S) d w))) q)"
  "list_all prepared (descendants_list cs) \<Longrightarrow>
     list_all (\<lambda>x. isDirtyDB x = False) (descendants_list (fst (Reset_loop (spec_tables S) cs w))) \<and>
     (\<forall>x\<in>set (descendants_list cs). \<forall>q. under (stagingTable x) q \<longrightarrow>
         empty_at (snd (Reset_loop (spec_tables S) cs w)) q)"
proof (induction "spec_tables S" d w and "spec_tables S" cs w rule: Reset_Reset_loop.induct)
  case (1 t h i p d cs w)
  then show ?case
    by (cases "Reset_loop (spec_tables S) cs w")
       (simp add: prepared_def spec_tables_simps Purge_empty Purge_keeps_empty)
next
  case (2 w)
  then show ?case by simp
next
  case (3 c pdb rest w)
  obtain e pdb' w' where r: "Reset (spec_tables S) pdb w = (e, pdb', w')"
    by (cases "Reset (spec_tables S) pdb w") auto
  obtain rest' w'' where l: "Reset_loop (spec_tables S) rest w' = (rest', w'')"
    by (cases "Reset_loop (spec_tables S) rest w'") auto
  from 3(3) have pp: "prepared pdb" "list_all prepared (descendants pdb)"
    "list_all prepared (descendants_list rest)" by simp_all
  from 3(1)[OF pp(1,2)] r have a:
    "isDirtyDB pdb' = False" "list_all (\<lambda>x. isDirtyDB x = False) (descendants pdb')"
    "\<forall>q. under (stagingTable pdb) q \<longrightarrow> empty_at w' q"
    "\<forall>x\<in>set (descendants pdb). \<forall>q. under (stagingTable x) q \<longrightarrow> empty_at w' q"
    by simp_all
  from 3(2)[OF r[symmetric] refl pp(3)] l have b:
    "list_all (\<lambda>x. isDirtyDB x = False) (descendants_list rest')"
    "\<forall>x\<in>set (descendants_list rest). \<forall>q. under (stagingTable x) q \<longrightarrow> empty_at w'' q"
    by simp_all
  have k: "\<And>q. empty_at w' q \<Longrightarrow> empty_at w'' q"
    using Reset_keeps_empty(2)[of w' _ S rest] l by simp
  show ?case using a b k r l by (auto)
qed


lemma set_entries_backend: "backend (set_entries h es w) = backend w"
  by (simp add: set_entries_def split: option.splits)

lemma insert_default_backend: "backend (snd (insert_default h k f w)) = backend w"
  by (simp add: insert_default_def set_entries_backend Let_def split: option.splits)

lemma replace_entry_backend: "backend (replace_entry h r w) = backend w"
  by (simp add: replace_entry_def set_entries_backend split: option.splits)

lemma StagingTable_Get_backend: "backend (snd (StagingTable_Get S h k w)) = backend w"
proof (induction S h k w rule: StagingTable_Get.induct)
  case (1 S k w)
  then show ?case by simp
next
  case (2 S t p k w)
  show ?case
  proof (cases "tables w (t # p)")
    case None
    then show ?thesis by simp
  next
    case (Some tbl)
    show ?thesis
    proof (cases "find_entry k (entries tbl)")
      case (Some v)
      with \<open>tables w (t # p) = Some tbl\<close> show ?thesis by simp
    next
      case None
      show ?thesis
      proof (cases "p = []")
        case True
        with None \<open>tables w (t # p) = Some tbl\<close> show ?thesis
          by (simp add: insert_default_backend split: sum.splits)
      next
        case False
        obtain r w1 where g: "StagingTable_Get S p k w = (r, w1)"
          by (cases "StagingTable_Get S p k w") auto
        from 2[OF \<open>tables w (t # p) = Some tbl\<close> None False] g
        have "backend w1 = backend w" by simp
        with None False g \<open>tables w (t # p) = Some tbl\<close> show ?thesis
          by (simp add: insert_default_backend split: sum.splits)
      qed
    qed
  qed
qed

lemma StagingTable_Put_backend: "backend (snd (StagingTable_Put S h k v w)) = backend w"
proof -
  obtain r w1 where g: "StagingTable_Get S h k w = (r, w1)"
    by (cases "StagingTable_Get S h k w") auto
  with StagingTable_Get_backend [of S h k w] have "backend w1 = backend w" by simp
  with g show ?thesis
    by (cases r) (simp_all add: StagingTable_Put_def replace_entry_backend)
qed

lemma StagingTable_Del_backend: "backend (snd (StagingTable_Del S h k w)) = backend w"
proof -
  obtain r w1 where g: "StagingTable_Get S h k w = (r, w1)"
    by (cases "StagingTable_Get S h k w") auto
  with StagingTable_Get_backend [of S h k w] have "backend w1 = backend w" by simp
  with g show ?thesis
    by (cases r) (simp_all add: StagingTable_Del_def replace_entry_backend)
qed

lemma run_op_in_transaction:
  assumes "isInTransaction db" and "run_op S (spec_tables S) db x w = (db', w')"
  shows "backend w' = backend w \<and> isInTransaction db' \<and> isPreparedDB db' = isPreparedDB db
         \<and> preparedDBs db' = preparedDBs db \<and> stagingTable db' = stagingTable db"
proof (cases x)
  case (OpGet k)
  with assms StagingTable_Get_backend [of S "stagingTable db" k w] show ?thesis
    by (auto simp: MVCCDB_Get_def spec_tables_simps split: prod.splits sum.splits if_splits)
next
  case (OpPut k v)
  with assms StagingTable_Put_backend [of S "stagingTable db" k v w] show ?thesis
    by (cases db) (auto simp: MVCCDB_Put_def spec_tables_simps split: prod.splits sum.splits)
next
  case (OpDel k)
  with assms StagingTable_Del_backend [of S "stagingTable db" k w] show ?thesis
    by (cases db) (auto simp: MVCCDB_Del_def spec_tables_simps split: prod.splits sum.splits)
qed

lemma run_ops_in_transaction:
  "isInTransaction db \<Longrightarrow> run_ops S (spec_tables S) db xs w = (db', w') \<Longrightarrow>
   backend w' = backend w \<and> isInTransaction db' \<and> isPreparedDB db' = isPreparedDB db
     \<and> preparedDBs db' = preparedDBs db \<and> stagingTable db' = stagingTable db"
proof (induction xs arbitrary: db w)
  case Nil
  then show ?case by simp
next
  case (Cons x xs)
  obtain db1 w1 where s: "run_op S (spec_tables S) db x w = (db1, w1)"
    by (cases "run_op S (spec_tables S) db x w") auto
  from run_op_in_transaction [OF Cons.prems(1) s] Cons.IH [of db1 w1] Cons.prems(2) s
  show ?case by simp
qed

lemma descendants_preparedDBs: "descendants db = descendants_list (preparedDBs db)"
  by (cases db) simp

lemma rollback_scenario_eval:
  "fst rollback_scenario = MVCCDB (DBPtr 0) [DBPtr 0] True False True []"
  "backend (snd rollback_scenario) = [([3], Some [4])]"
  by (simp_all add: rollback_scenario_def scenario_defs MVCCDB_Get_def MVCCDB_Del_def
        StagingTable_Del_def split: prod.splits)

text \<open>
  Claim C9. \<open>RollBack\<close> on a root in a transaction, whose registered children are
  prepared databases, returns nil; afterwards \<open>isInTransaction\<close> and \<open>isDirtyDB\<close> of the
  root are false, no registered child or descendant is dirty, the registry has the same
  keys, the root's table, every child's table and every table below them are empty, and
  the backend is the one before the call. For a transaction of \<open>Get\<close>, \<open>Put\<close> and
  \<open>Del\<close> calls since \<open>Begin\<close>, the backend after \<open>RollBack\<close> is the backend before
  \<open>Begin\<close>.
\<close>

theorem RollBack_root:
  assumes "isInTransaction db" and "\<not> isPreparedDB db"
    and "list_all prepared (descendants db)"
  shows "(\<exists>db' w'. RollBack (spec_tables S) db w = (None, db', w')
            \<and> backend w' = backend w
            \<and> isInTransaction db' = False \<and> isDirtyDB db' = False
            \<and> list_all (\<lambda>x. isDirtyDB x = False) (descendants db')
            \<and> map fst (preparedDBs db') = map fst (preparedDBs db)
            \<and> (\<forall>q. under (stagingTable db) q \<longrightarrow> empty_at w' q)
            \<and> (\<forall>x\<in>set (descendants db). \<forall>q. under (stagingTable x) q \<longrightarrow> empty_at w' q))
       \<and> (\<forall>db0 db1 w0 xs.
             Begin db0 = (None, db1) \<and> run_ops S (spec_tables S) db1 xs w0 = (db, w)
             \<longrightarrow> backend (snd (snd (RollBack (spec_tables S) db w))) = backend w0)"
proof -
  obtain cs' w1 where l: "Reset_loop (spec_tables S) (preparedDBs db) w = (cs', w1)"
    by (cases "Reset_loop (spec_tables S) (preparedDBs db) w") auto
  let ?db' = "set_isDirtyDB False (set_isInTransaction False (set_preparedDBs cs' db))"
  let ?w' = "StagingTable_Purge (stagingTable db) w1"
  have r: "RollBack (spec_tables S) db w = (None, ?db', ?w')"
    using assms(1,2) l by (simp add: RollBack_def spec_tables_simps)
  have b: "backend ?w' = backend w"
    using Reset_backend(2) [of S "preparedDBs db" w] l by (simp add: Purge_backend)
  have d: "descendants ?db' = descendants_list cs'" "preparedDBs ?db' = cs'"
    "isInTransaction ?db' = False" "isDirtyDB ?db' = False"
    by (cases db; simp)+
  from assms(3) have pl: "list_all prepared (descendants_list (preparedDBs db))"
    by (simp add: descendants_preparedDBs)
  from Reset_prepared(2) [OF pl, of S w] l
  have c: "list_all (\<lambda>x. isDirtyDB x = False) (descendants_list cs')"
    and e: "\<forall>x\<in>set (descendants db). \<forall>q. under (stagingTable x) q \<longrightarrow> empty_at w1 q"
    by (simp_all add: descendants_preparedDBs)
  from Reset_handles(2) [of "spec_tables S" "preparedDBs db" w] l
  have k: "map fst cs' = map fst (preparedDBs db)" by simp
  have first: "\<exists>db' w'. RollBack (spec_tables S) db w = (None, db', w')
            \<and> backend w' = backend w
            \<and> isInTransaction db' = False \<and> isDirtyDB db' = False
            \<and> list_all (\<lambda>x. isDirtyDB x = False) (descendants db')
            \<and> map fst (preparedDBs db') = map fst (preparedDBs db)
            \<and> (\<forall>q. under (stagingTable db) q \<longrightarrow> empty_at w' q)
            \<and> (\<forall>x\<in>set (descendants db). \<forall>q. under (stagingTable x) q \<longrightarrow> empty_at w' q)"
    using r b d c e k by (intro exI [of _ ?db'] exI [of _ ?w']) (simp add: Purge_empty Purge_keeps_empty)
  have second: "\<forall>db0 db1 w0 xs.
             Begin db0 = (None, db1) \<and> run_ops S (spec_tables S) db1 xs w0 = (db, w)
             \<longrightarrow> backend (snd (snd (RollBack (spec_tables S) db w))) = backend w0"
  proof (intro allI impI)
    fix db0 db1 w0 xs
    assume a: "Begin db0 = (None, db1) \<and> run_ops S (spec_tables S) db1 xs w0 = (db, w)"
    then have "isInTransaction db1"
      by (cases db0) (auto simp: Begin_def split: if_splits)
    with a have "backend w = backend w0"
      using run_ops_in_transaction [of db1 S xs w0 db w] by simp
    with r b show "backend (snd (snd (RollBack (spec_tables S) db w))) = backend w0" by simp
  qed
  from first second show ?thesis by (rule conjI)
qed

theorem RollBack_root_witness:
  "isInTransaction (fst dirty_child_scenario) \<and> \<not> isPreparedDB (fst dirty_child_scenario)
   \<and> list_all prepared (descendants (fst dirty_child_scenario))
   \<and> list_ex isDirtyDB (descendants (fst dirty_child_scenario))
   \<and> (\<exists>db' w'. RollBack (spec_tables mem_storage) (fst dirty_child_scenario)
                    (snd (snd dirty_child_scenario)) = (None, db', w')
         \<and> backend w' = backend (snd (snd dirty_child_scenario))
         \<and> isInTransaction db' = False \<and> isDirtyDB db' = False
         \<and> list_all (\<lambda>x. isDirtyDB x = False) (descendants db')
         \<and> empty_at w' [DBPtr 0] \<and> empty_at w' [TidVal 1, DBPtr 0])
   \<and> Begin (fst (NewMVCCDB (spec_tables mem_storage) 0 (no_tables [([3], Some [4])])))
       = (None, MVCCDB (DBPtr 0) [DBPtr 0] True False False [])
   \<and> backend (snd (snd (RollBack (spec_tables mem_storage) (fst rollback_scenario)
                             (snd rollback_scenario)))) = [([3], Some [4])]"
proof -
  let ?T = "spec_tables mem_storage"
  let ?d = "fst dirty_child_scenario"
  let ?w = "snd (snd dirty_child_scenario)"
  have a: "isInTransaction ?d" "\<not> isPreparedDB ?d" "list_all prepared (descendants ?d)"
    "list_ex isDirtyDB (descendants ?d)"
    by (simp_all add: dirty_child_scenario_root dirty_child_root_def prepared_def)
  have u: "under (stagingTable ?d) [DBPtr 0]" "under (stagingTable ?d) [TidVal 1, DBPtr 0]"
    by (simp_all add: dirty_child_scenario_root dirty_child_root_def under_def)
  from RollBack_root [OF a(1-3), of mem_storage ?w] u
  have first: "\<exists>db' w'. RollBack ?T ?d ?w = (None, db', w')
         \<and> backend w' = backend ?w
         \<and> isInTransaction db' = False \<and> isDirtyDB db' = False
         \<and> list_all (\<lambda>x. isDirtyDB x = False) (descendants db')
         \<and> empty_at w' [DBPtr 0] \<and> empty_at w' [TidVal 1, DBPtr 0]"
    by blast
  let ?n = "NewMVCCDB ?T 0 (no_tables [([3], Some [4])])"
  let ?xs = "[OpPut [1] (Some [2]), OpGet [3], OpDel [3]]"
  have b: "Begin (fst ?n) = (None, MVCCDB (DBPtr 0) [DBPtr 0] True False False [])"
    by (simp add: scenario_defs)
  have r: "run_ops mem_storage ?T (MVCCDB (DBPtr 0) [DBPtr 0] True False False []) ?xs (snd ?n)
           = (fst rollback_scenario, snd rollback_scenario)"
    by (simp add: rollback_scenario_def scenario_defs split: prod.splits)
  have c: "isInTransaction (fst rollback_scenario)" "\<not> isPreparedDB (fst rollback_scenario)"
    "list_all prepared (descendants (fst rollback_scenario))"
    by (simp_all add: rollback_scenario_eval)
  have w0: "backend (snd ?n) = [([3], Some [4])]"
    by (simp add: scenario_defs)
  from RollBack_root [OF c, of mem_storage "snd rollback_scenario"] b r
  have "backend (snd (snd (RollBack ?T (fst rollback_scenario) (snd rollback_scenario))))
        = backend (snd ?n)"
    by blast
  with w0 have second: "backend (snd (snd (RollBack ?T (fst rollback_scenario)
                             (snd rollback_scenario)))) = [([3], Some [4])]"
    by simp
  from a first b second show ?thesis by blast
qed

section \<open>Properties of the batch trie\<close>

lemmas trie_defs =
  BatchTrie_Put_def BatchTrie_Get_def BatchTrie_Del_def BatchTrie_RollBack_def list_trie_def
  fresh_trie_def returned_def BeginBatch_def record_ops_def has_key_def assign_def
  log_change_def hex_digit_def Let_def

lemma rolled_back_eval:
  "rolled_back = \<lparr>trie = [([3], Some [4])], changelog = [], batching = False,
                   initialoplog = None, finaloplog = None\<rparr>"
  by (simp add: rolled_back_def trie_defs)

lemma record_ops_nil: "initialoplog bt = None \<Longrightarrow> record_ops a k e bt = Panic"
  by (simp add: record_ops_def has_key_def assign_def)

text \<open>
  Claim C10, as stated: after \<open>RollBack\<close> every \<open>Get\<close>, \<open>Put\<close> and \<open>Del\<close>, for
  every key, assigns into a nil map. A \<open>Del\<close> whose trie operation fails returns that
  error before it reaches the maps: it does not panic.
\<close>

theorem Del_after_RollBack_returns:
  "BatchTrie_Del list_trie (BatchTrie_RollBack list_trie fresh_trie) [9]
     = Return ((None, Some ErrKeyNotFound), BatchTrie_RollBack list_trie fresh_trie)"
  by (simp add: trie_defs)

text \<open>
  Claim C10, amended. After \<open>RollBack\<close> both maps are nil, and \<open>BeginBatch\<close>,
  \<open>Commit\<close> and a change of the trie leave them as they are. On every batch trie whose
  \<open>initialoplog\<close> is nil, whatever its other fields, every \<open>Get\<close> panics; a \<open>Put\<close> or
  \<open>Del\<close> panics exactly when its trie operation succeeds, and otherwise returns the error
  of the trie with the maps untouched.
\<close>

theorem after_RollBack:
  "initialoplog (BatchTrie_RollBack P bt) = None
   \<and> finaloplog (BatchTrie_RollBack P bt) = None
   \<and> (initialoplog b = None \<longrightarrow>
        BatchTrie_Get P b k = Panic
      \<and> BatchTrie_Put P b k v =
          (case trie_Put P (trie b) k v of
             ((rootHash, putErr), t') \<Rightarrow>
               if putErr = None then Panic else Return ((None, putErr), b\<lparr>trie := t'\<rparr>))
      \<and> BatchTrie_Del P b k =
          (case trie_Del P (trie b) k of
             ((rootHash, err), t') \<Rightarrow>
               if err = None then Panic else Return ((None, err), b\<lparr>trie := t'\<rparr>)))
   \<and> initialoplog (BeginBatch b) = initialoplog b
   \<and> finaloplog (BeginBatch b) = finaloplog b
   \<and> initialoplog (BatchTrie_Commit b) = initialoplog b
   \<and> finaloplog (BatchTrie_Commit b) = finaloplog b
   \<and> initialoplog (b\<lparr>trie := t\<rparr>) = initialoplog b
   \<and> finaloplog (b\<lparr>trie := t\<rparr>) = finaloplog b"
proof -
  have n: "initialoplog (BatchTrie_RollBack P bt) = None"
    "finaloplog (BatchTrie_RollBack P bt) = None"
    by (simp_all add: BatchTrie_RollBack_def)
  have g: "initialoplog b = None \<Longrightarrow> BatchTrie_Get P b k = Panic"
    by (simp add: BatchTrie_Get_def record_ops_nil split: prod.splits)
  have p: "initialoplog b = None \<Longrightarrow> BatchTrie_Put P b k v =
          (case trie_Put P (trie b) k v of
             ((rootHash, putErr), t') \<Rightarrow>
               if putErr = None then Panic else Return ((None, putErr), b\<lparr>trie := t'\<rparr>))"
    by (auto simp: BatchTrie_Put_def record_ops_nil Let_def split: prod.splits)
  have d: "initialoplog b = None \<Longrightarrow> BatchTrie_Del P b k =
          (case trie_Del P (trie b) k of
             ((rootHash, err), t') \<Rightarrow>
               if err = None then Panic else Return ((None, err), b\<lparr>trie := t'\<rparr>))"
    by (auto simp: BatchTrie_Del_def record_ops_nil Let_def split: prod.splits)
  have k: "initialoplog (BeginBatch b) = initialoplog b" "finaloplog (BeginBatch b) = finaloplog b"
    "initialoplog (BatchTrie_Commit b) = initialoplog b"
    "finaloplog (BatchTrie_Commit b) = finaloplog b"
    "initialoplog (b\<lparr>trie := t\<rparr>) = initialoplog b" "finaloplog (b\<lparr>trie := t\<rparr>) = finaloplog b"
    by (simp_all add: BeginBatch_def BatchTrie_Commit_def)
  from n g p d k show ?thesis by blast
qed

theorem after_RollBack_witness:
  "initialoplog (BeginBatch rolled_back) = None
   \<and> batching (BeginBatch rolled_back)
   \<and> BatchTrie_Get list_trie (BeginBatch rolled_back) [3] = Panic
   \<and> BatchTrie_Put list_trie (BeginBatch rolled_back) [9] (Some [1]) = Panic
   \<and> BatchTrie_Del list_trie (BeginBatch rolled_back) [3] = Panic
   \<and> BatchTrie_Del list_trie (BeginBatch rolled_back) [9]
       = Return ((None, Some ErrKeyNotFound), BeginBatch rolled_back)
   \<and> BatchTrie_Get list_trie rolled_back [3] = Panic"
proof -
  let ?bt = "returned (BatchTrie_Put list_trie
          (BeginBatch (returned (BatchTrie_Put list_trie fresh_trie [3] (Some [4])) fresh_trie))
          [1] (Some [2])) fresh_trie"
  let ?b = "BeginBatch rolled_back"
  let ?t = "[([3], Some [4])] :: list_trie"
  have r: "rolled_back = BatchTrie_RollBack list_trie ?bt" by (simp add: rolled_back_def)
  have tr: "trie ?b = ?t" "batching ?b" "?b\<lparr>trie := ?t\<rparr> = ?b"
    by (simp_all add: rolled_back_eval BeginBatch_def)
  have e: "trie_Put list_trie ?t [9] (Some [1]) = ((Some [], None), ([9], Some [1]) # ?t)"
    "trie_Del list_trie ?t [3] = ((Some [], None), [])"
    "trie_Del list_trie ?t [9] = ((None, Some ErrKeyNotFound), ?t)"
    by (simp_all add: list_trie_def)
  note t0 = after_RollBack [of list_trie ?bt rolled_back "[3]" "Some [1]" ?t, folded r]
  then have n0: "initialoplog rolled_back = None" by blast
  with t0 have g0: "BatchTrie_Get list_trie rolled_back [3] = Panic" by blast
  note t1 = after_RollBack [of list_trie ?bt ?b "[3]" "Some [1]" ?t, folded r]
  note t2 = after_RollBack [of list_trie ?bt ?b "[9]" "Some [1]" ?t, folded r]
  from t0 n0 have n: "initialoplog ?b = None" by simp
  from t1 n have g: "BatchTrie_Get list_trie ?b [3] = Panic"
    and d3: "BatchTrie_Del list_trie ?b [3] = Panic"
    by (simp_all add: tr e)
  from t2 n have p: "BatchTrie_Put list_trie ?b [9] (Some [1]) = Panic"
    and d9: "BatchTrie_Del list_trie ?b [9] = Return ((None, Some ErrKeyNotFound), ?b)"
    by (simp_all add: tr e)
  from n tr(2) g p d3 d9 g0 show ?thesis by blast
qed

end
